theory Spec2Isabelle
  imports Complex_Main "HOL-Library.Product_Lexorder"
begin

section \<open>The background task scheduler of Galatea-OS\<close>

text \<open>
  A shallow embedding of \<^verbatim>\<open>background_task_service.py\<close>. Tasks are the nested
  dictionaries of the JSON task file; every key the code reads with \<^verbatim>\<open>.get\<close> is an
  optional field, whose value \<open>None\<close> is the absent key. Fields carry the types the
  data model gives them (strings, booleans, integers, numbers); the JSON \<^verbatim>\<open>null\<close>
  that the service itself writes into \<^verbatim>\<open>next_available_at\<close> reads as the absent
  key, as \<^verbatim>\<open>.get\<close> makes it.

  The numeric type \<open>'f\<close> of \<^verbatim>\<open>bounty.reward\<close> and \<^verbatim>\<open>q_learning.reward_weight\<close> is
  a parameter: the code multiplies two floats and compares the products, so the model
  asks only for a multiplication and a linear order, with no law relating the two.

  Timestamps are Python datetimes: either naive (no UTC offset) or aware, counted in
  microseconds. Python refuses to order a naive against an aware datetime, which is the
  \<open>TypeError\<close> of \<open>dt_less\<close>. The year range of datetimes is not modelled.
  \<^verbatim>\<open>datetime.fromisoformat\<close> and \<^verbatim>\<open>datetime.isoformat\<close> belong to the Python
  library: they are the parameters \<open>parse\<close> (with \<open>None\<close> where the library raises)
  and \<open>fmt\<close> of the functions below.
\<close>

subsection \<open>Data model\<close>

datatype error = TypeError | FileNotFoundError | RuntimeError | HandlerError string

datatype datetime = Naive int | Aware int

record runtime =
  enabled :: "bool option"

record 'f bounty =
  reward :: "'f option"
  priority :: "int option"
  cooldown_sec :: "int option"

record 'f q_learning =
  state_key :: "string option"
  action_key :: "string option"
  reward_weight :: "'f option"

record state =
  status :: "string option"
  available :: "bool option"
  last_started_at :: "string option"
  last_completed_at :: "string option"
  next_available_at :: "string option"
  last_result :: "string option"
  consecutive_failures :: "int option"

record 'f task =
  task_id :: "string option"
  name :: "string option"
  action :: "string option"
  domain :: "string option"
  runtime :: "runtime option"
  bounty :: "'f bounty option"
  q_learning :: "'f q_learning option"
  state :: "state option"

record 'f data =
  tasks :: "'f task list option"

record TaskRunResult =
  ok :: bool
  details :: string

text \<open>The empty dictionaries that \<^verbatim>\<open>task.get(key, {})\<close> falls back to.\<close>

definition empty_runtime :: runtime where
  "empty_runtime = \<lparr>enabled = None\<rparr>"

definition empty_bounty :: "'f bounty" where
  "empty_bounty = \<lparr>reward = None, priority = None, cooldown_sec = None\<rparr>"

definition empty_q_learning :: "'f q_learning" where
  "empty_q_learning = \<lparr>state_key = None, action_key = None, reward_weight = None\<rparr>"

definition empty_state :: state where
  "empty_state = \<lparr>status = None, available = None, last_started_at = None,
     last_completed_at = None, next_available_at = None, last_result = None,
     consecutive_failures = None\<rparr>"

definition get_runtime :: "'f task \<Rightarrow> runtime" where
  "get_runtime t = (case runtime t of None \<Rightarrow> empty_runtime | Some r \<Rightarrow> r)"

definition get_bounty :: "'f task \<Rightarrow> 'f bounty" where
  "get_bounty t = (case bounty t of None \<Rightarrow> empty_bounty | Some b \<Rightarrow> b)"

definition get_q_learning :: "'f task \<Rightarrow> 'f q_learning" where
  "get_q_learning t = (case q_learning t of None \<Rightarrow> empty_q_learning | Some q \<Rightarrow> q)"

definition get_state :: "'f task \<Rightarrow> state" where
  "get_state t = (case state t of None \<Rightarrow> empty_state | Some s \<Rightarrow> s)"

definition get_tasks :: "'f data \<Rightarrow> 'f task list" where
  "get_tasks d = (case tasks d of None \<Rightarrow> [] | Some ts \<Rightarrow> ts)"

definition get_default :: "'a option \<Rightarrow> 'a \<Rightarrow> 'a" where
  "get_default v d = (case v of None \<Rightarrow> d | Some x \<Rightarrow> x)"

subsection \<open>Clock utilities\<close>

text \<open>\<^verbatim>\<open>a < b\<close> on datetimes.\<close>

fun dt_less :: "datetime \<Rightarrow> datetime \<Rightarrow> error + bool" where
  "dt_less (Aware a) (Aware b) = Inr (a < b)"
| "dt_less (Naive a) (Naive b) = Inr (a < b)"
| "dt_less (Aware a) (Naive b) = Inl TypeError"
| "dt_less (Naive a) (Aware b) = Inl TypeError"

text \<open>\<^verbatim>\<open>d + timedelta(seconds=n)\<close>.\<close>

fun add_seconds :: "datetime \<Rightarrow> int \<Rightarrow> datetime" where
  "add_seconds (Aware a) n = Aware (a + n * 1000000)"
| "add_seconds (Naive a) n = Naive (a + n * 1000000)"

definition parse_iso_or_none :: "(string \<Rightarrow> datetime option) \<Rightarrow> string option \<Rightarrow> datetime option" where
  "parse_iso_or_none parse v =
     (case v of
        None \<Rightarrow> None
      | Some s \<Rightarrow> if s = [] then None else parse s)"

subsection \<open>Availability\<close>

text \<open>
  \<^verbatim>\<open>_available(task, now)\<close>: the two early returns, then the comparison of
  \<^verbatim>\<open>now\<close> with the parsed \<^verbatim>\<open>next_available_at\<close>, which raises when the two
  datetimes cannot be ordered.
\<close>

definition available_fn :: "(string \<Rightarrow> datetime option) \<Rightarrow> 'f task \<Rightarrow> datetime \<Rightarrow> error + bool" where
  "available_fn parse t now =
     (if \<not> get_default (enabled (get_runtime t)) True then Inr False
      else if status (get_state t) = Some ''running'' then Inr False
      else (case parse_iso_or_none parse (next_available_at (get_state t)) of
              None \<Rightarrow> Inr True
            | Some next_at \<Rightarrow>
                (case dt_less now next_at of
                   Inl e \<Rightarrow> Inl e
                 | Inr b \<Rightarrow> if b then Inr False else Inr True)))"

text \<open>
  \<^verbatim>\<open>task.setdefault("state", {})\<close> followed by the assignment of
  \<^verbatim>\<open>state["available"]\<close>.
\<close>

definition set_available :: "bool \<Rightarrow> 'f task \<Rightarrow> 'f task" where
  "set_available b t = t\<lparr>state := Some ((get_state t)\<lparr>available := Some b\<rparr>)\<rparr>"

text \<open>
  The loop of \<^verbatim>\<open>_refresh_availability\<close> over the task list, at the clock reading
  \<open>now\<close> taken before the loop. An exception of \<open>available_fn\<close> leaves the loop;
  the caller then drops the data, so the tasks refreshed until then are not returned.
\<close>

fun refresh_tasks :: "(string \<Rightarrow> datetime option) \<Rightarrow> datetime \<Rightarrow> 'f task list \<Rightarrow> error + 'f task list" where
  "refresh_tasks parse now [] = Inr []"
| "refresh_tasks parse now (t # ts) =
     (case available_fn parse t now of
        Inl e \<Rightarrow> Inl e
      | Inr b \<Rightarrow>
          (case refresh_tasks parse now ts of
             Inl e \<Rightarrow> Inl e
           | Inr ts' \<Rightarrow> Inr (set_available b t # ts')))"

definition refresh_availability :: "(string \<Rightarrow> datetime option) \<Rightarrow> datetime \<Rightarrow> 'f data \<Rightarrow> error + 'f data" where
  "refresh_availability parse now d =
     (case tasks d of
        None \<Rightarrow> Inr d
      | Some ts \<Rightarrow>
          (case refresh_tasks parse now ts of
             Inl e \<Rightarrow> Inl e
           | Inr ts' \<Rightarrow> Inr (d\<lparr>tasks := Some ts'\<rparr>)))"

subsection \<open>Selection policy\<close>

text \<open>\<^verbatim>\<open>t.get("state", {}).get("available", False)\<close>.\<close>

definition state_available :: "'f task \<Rightarrow> bool" where
  "state_available t = get_default (available (get_state t)) False"

text \<open>
  The sort key of the greedy baseline: the pair of the product
  \<^verbatim>\<open>float(reward) * float(reward_weight)\<close> and \<^verbatim>\<open>int(priority)\<close>, compared
  as Python compares tuples, lexicographically.
\<close>

definition sort_key_fn :: "'f::{zero,one,times,linorder} task \<Rightarrow> 'f \<times> int" where
  "sort_key_fn t =
     (get_default (reward (get_bounty t)) 0 * get_default (reward_weight (get_q_learning t)) 1,
      get_default (priority (get_bounty t)) 0)"

text \<open>
  \<^verbatim>\<open>list.sort(key=f, reverse=True)\<close>: Python reverses the list, sorts it with its
  stable ascending sort, and reverses the result, so that equal keys keep their
  original order.
\<close>

definition sort_reverse :: "('a \<Rightarrow> 'k::linorder) \<Rightarrow> 'a list \<Rightarrow> 'a list" where
  "sort_reverse f xs = rev (sort_key f (rev xs))"

text \<open>The loop over the tasks when a preferred id is given.\<close>

fun pick_preferred :: "'f task list \<Rightarrow> string \<Rightarrow> string option" where
  "pick_preferred [] p = None"
| "pick_preferred (t # ts) p =
     (if task_id t = Some p \<and> state_available t then Some p else pick_preferred ts p)"

text \<open>A Python string or \<^verbatim>\<open>None\<close> is true when it is a non-empty string.\<close>

definition truthy :: "string option \<Rightarrow> bool" where
  "truthy v = (case v of None \<Rightarrow> False | Some s \<Rightarrow> s \<noteq> [])"

definition pick_task_id :: "'f::{zero,one,times,linorder} data \<Rightarrow> string option \<Rightarrow> string option" where
  "pick_task_id d preferred_task_id =
     (let ts = get_tasks d
      in if truthy preferred_task_id then pick_preferred ts (get_default preferred_task_id [])
         else let candidates = filter state_available ts
              in if candidates = [] then None
                 else (case sort_reverse sort_key_fn candidates of
                         [] \<Rightarrow> None
                       | c # _ \<Rightarrow> task_id c))"

subsection \<open>Settling a run\<close>

text \<open>
  \<^verbatim>\<open>_mark_post_run(task, result)\<close>, at the clock reading \<open>now\<close> taken inside it.
\<close>

definition mark_post_run :: "(datetime \<Rightarrow> string) \<Rightarrow> datetime \<Rightarrow> 'f task \<Rightarrow> TaskRunResult \<Rightarrow> 'f task" where
  "mark_post_run fmt now t result =
     (let st = get_state t;
          cooldown = get_default (cooldown_sec (get_bounty t)) 0
      in t\<lparr>state := Some (st\<lparr>
           status := Some (if ok result then ''success'' else ''failed''),
           last_completed_at := Some (fmt now),
           last_result := Some (details result),
           consecutive_failures :=
             Some (if ok result then 0 else get_default (consecutive_failures st) 0 + 1),
           next_available_at :=
             (if cooldown > 0 then Some (fmt (add_seconds now cooldown)) else None),
           available := Some (if cooldown > 0 then False else True)\<rparr>)\<rparr>)"

subsection \<open>The bounty board\<close>

record 'f board_entry =
  e_id :: "string option"
  e_name :: "string option"
  e_action :: "string option"
  e_domain :: "string option"
  e_available :: bool
  e_cooldown_sec :: int
  e_next_available_at :: "string option"
  e_reward :: 'f
  e_priority :: int
  e_state_key :: "string option"
  e_action_key :: "string option"
  e_reward_weight :: 'f
  e_last_result :: "string option"

record 'f board =
  updated_at :: string
  loop_type :: string
  b_tasks :: "'f board_entry list"

definition board_item :: "'f::{zero,one} task \<Rightarrow> 'f board_entry" where
  "board_item t =
     \<lparr>e_id = task_id t,
      e_name = name t,
      e_action = action t,
      e_domain = domain t,
      e_available = get_default (available (get_state t)) False,
      e_cooldown_sec = get_default (cooldown_sec (get_bounty t)) 0,
      e_next_available_at = next_available_at (get_state t),
      e_reward = get_default (reward (get_bounty t)) 0,
      e_priority = get_default (priority (get_bounty t)) 0,
      e_state_key = state_key (get_q_learning t),
      e_action_key = action_key (get_q_learning t),
      e_reward_weight = get_default (reward_weight (get_q_learning t)) 1,
      e_last_result = last_result (get_state t)\<rparr>"

subsection \<open>The world: files and clock\<close>

text \<open>
  The two files of the service, the other files of the file system (the logs of the
  service adapter) and the clock. \<open>clock w n\<close> is what the \<open>n\<close>-th call of
  \<^verbatim>\<open>utc_now()\<close> returns, in microseconds; \<open>ticks\<close> counts the calls made so far. The
  task file and the bounty board file are two different paths, as the defaults are.
\<close>

record 'f world =
  task_file :: "'f data option"
  bounty_board_file :: "'f board option"
  files :: "string \<Rightarrow> string option"
  clock :: "nat \<Rightarrow> int"
  ticks :: nat

definition utc_now :: "'f world \<Rightarrow> datetime \<times> 'f world" where
  "utc_now w = (Aware (clock w (ticks w)), w\<lparr>ticks := Suc (ticks w)\<rparr>)"

definition iso_now :: "(datetime \<Rightarrow> string) \<Rightarrow> 'f world \<Rightarrow> string \<times> 'f world" where
  "iso_now fmt w = (case utc_now w of (now, w') \<Rightarrow> (fmt now, w'))"

definition load :: "'f world \<Rightarrow> error + 'f data" where
  "load w = (case task_file w of None \<Rightarrow> Inl FileNotFoundError | Some d \<Rightarrow> Inr d)"

definition save :: "'f data \<Rightarrow> 'f world \<Rightarrow> 'f world" where
  "save d w = w\<lparr>task_file := Some d\<rparr>"

text \<open>
  \<^verbatim>\<open>_to_bounty_board\<close> refreshes the availability (one clock reading), projects
  every task and stamps the board (a second clock reading). \<^verbatim>\<open>_write_bounty_board\<close>
  writes the result. Both return the refreshed data, which the Python mutates in place.
\<close>

definition to_bounty_board ::
  "(string \<Rightarrow> datetime option) \<Rightarrow> (datetime \<Rightarrow> string) \<Rightarrow> 'f::{zero,one} data \<Rightarrow> 'f world
     \<Rightarrow> (error + 'f board \<times> 'f data) \<times> 'f world" where
  "to_bounty_board parse fmt d w =
     (case utc_now w of (now, w1) \<Rightarrow>
        (case refresh_availability parse now d of
           Inl e \<Rightarrow> (Inl e, w1)
         | Inr d1 \<Rightarrow>
             (case iso_now fmt w1 of (stamp, w2) \<Rightarrow>
                (Inr (\<lparr>updated_at = stamp, loop_type = ''closed'',
                        b_tasks = map board_item (get_tasks d1)\<rparr>, d1), w2))))"

definition write_bounty_board ::
  "(string \<Rightarrow> datetime option) \<Rightarrow> (datetime \<Rightarrow> string) \<Rightarrow> 'f::{zero,one} data \<Rightarrow> 'f world
     \<Rightarrow> (error + 'f data) \<times> 'f world" where
  "write_bounty_board parse fmt d w =
     (case to_bounty_board parse fmt d w of
        (Inl e, w1) \<Rightarrow> (Inl e, w1)
      | (Inr (b, d1), w1) \<Rightarrow> (Inr d1, w1\<lparr>bounty_board_file := Some b\<rparr>))"

subsection \<open>Action dispatch\<close>

text \<open>
  \<^verbatim>\<open>str.strip()\<close> removes the white space at both ends of a string. A string is the
  list of its code points, here below 256, of which Python counts as white space the
  codes 9 to 13, 28 to 32, 133 and 160.
\<close>

definition is_space :: "char \<Rightarrow> bool" where
  "is_space c = (let n = (of_char c :: nat) in
     (9 \<le> n \<and> n \<le> 13) \<or> (28 \<le> n \<and> n \<le> 32) \<or> n = 133 \<or> n = 160)"

definition strip :: "string \<Rightarrow> string" where
  "strip s = rev (dropWhile is_space (rev (dropWhile is_space s)))"

text \<open>
  The two adapters are arguments of the constructor of the service. A handler receives
  the task and acts on the world; it returns a \<open>TaskRunResult\<close> or raises. Handlers
  read the task and do not change it, as those of the source do.
\<close>

type_synonym 'f handler = "'f task \<Rightarrow> 'f world \<Rightarrow> (error + TaskRunResult) \<times> 'f world"

record 'f adapters =
  memory_update :: "'f handler"
  reload_service :: "'f handler"
  claim_daily_rewards :: "'f handler"
  close_advertisement :: "'f handler"

definition execute_action :: "'f adapters \<Rightarrow> 'f task \<Rightarrow> 'f world \<Rightarrow> (error + TaskRunResult) \<times> 'f world" where
  "execute_action ad t w =
     (let a = strip (get_default (action t) [])
      in if a = ''memory_update'' then memory_update ad t w
         else if a = ''reload_service'' then reload_service ad t w
         else if a = ''claim_daily_rewards'' then claim_daily_rewards ad t w
         else if a = ''close_advertisement'' then close_advertisement ad t w
         else (Inr \<lparr>ok = False, details = ''Unknown action: '' @ a\<rparr>, w))"

text \<open>
  The adapters of the source: the browser adapter is not configured, the service
  adapter writes a log file and reports it.
\<close>

definition write_log :: "(datetime \<Rightarrow> string) \<Rightarrow> string \<Rightarrow> string \<Rightarrow> 'f handler" where
  "write_log fmt path msg t w =
     (case iso_now fmt w of (stamp, w1) \<Rightarrow>
        (Inr \<lparr>ok = True, details = ''Wrote '' @ path\<rparr>,
         w1\<lparr>files := (files w1)(path \<mapsto> stamp @ msg)\<rparr>))"

definition default_adapters :: "(datetime \<Rightarrow> string) \<Rightarrow> 'f adapters" where
  "default_adapters fmt =
     \<lparr>memory_update =
        write_log fmt ''KMS/background_memory_update.log'' '' memory updated\<newline>'',
      reload_service =
        write_log fmt ''KMS/background_service_reload.log'' '' service reload requested\<newline>'',
      claim_daily_rewards = (\<lambda>t w.
        (Inr \<lparr>ok = False, details = ''Browser adapter not configured for claim_daily_rewards''\<rparr>, w)),
      close_advertisement = (\<lambda>t w.
        (Inr \<lparr>ok = False, details = ''Browser adapter not configured for close_advertisement''\<rparr>, w))\<rparr>"

subsection \<open>One cycle\<close>

datatype run_result = NotRan string | Ran string bool string

text \<open>
  \<^verbatim>\<open>next(t for t in tasks if t.get("id") == task_id)\<close>: the position of the first
  task that bears the id. Were there none, \<^verbatim>\<open>next\<close> would raise inside the
  coroutine, which is the \<open>RuntimeError\<close> of \<open>run_selected\<close>.
\<close>

fun first_with_id :: "'f task list \<Rightarrow> string \<Rightarrow> nat option" where
  "first_with_id [] tid = None"
| "first_with_id (t # ts) tid =
     (if task_id t = Some tid then Some 0 else map_option Suc (first_with_id ts tid))"

definition mark_running :: "string \<Rightarrow> 'f task \<Rightarrow> 'f task" where
  "mark_running started t =
     t\<lparr>state := Some ((get_state t)\<lparr>status := Some ''running'',
          last_started_at := Some started, available := Some False\<rparr>)\<rparr>"

text \<open>
  The part of \<^verbatim>\<open>run_once\<close> after a task id is selected. The selected task is an
  alias of an element of the list, so every change to it is a change of the list at
  its position. An exception leaves the cycle before anything is written.
\<close>

definition run_selected ::
  "'f::{zero,one} adapters \<Rightarrow> (string \<Rightarrow> datetime option) \<Rightarrow> (datetime \<Rightarrow> string) \<Rightarrow> string
     \<Rightarrow> 'f data \<Rightarrow> 'f world \<Rightarrow> (error + run_result) \<times> 'f world" where
  "run_selected ad parse fmt tid d w =
     (case first_with_id (get_tasks d) tid of
        None \<Rightarrow> (Inl RuntimeError, w)
      | Some i \<Rightarrow>
          (case iso_now fmt w of (started, w1) \<Rightarrow>
             let running = mark_running started (get_tasks d ! i)
             in (case execute_action ad running w1 of
                   (Inl e, w2) \<Rightarrow> (Inl e, w2)
                 | (Inr result, w2) \<Rightarrow>
                     (case utc_now w2 of (now, w3) \<Rightarrow>
                        let d1 = d\<lparr>tasks := Some ((get_tasks d)[i := mark_post_run fmt now running result])\<rparr>
                        in (case utc_now w3 of (now', w4) \<Rightarrow>
                              (case refresh_availability parse now' d1 of
                                 Inl e \<Rightarrow> (Inl e, w4)
                               | Inr d2 \<Rightarrow>
                                   (case write_bounty_board parse fmt d2 w4 of
                                      (Inl e, w5) \<Rightarrow> (Inl e, w5)
                                    | (Inr d3, w5) \<Rightarrow>
                                        (Inr (Ran tid (ok result) (details result)), save d3 w5))))))))"

definition run_once ::
  "'f::{zero,one,times,linorder} adapters \<Rightarrow> (string \<Rightarrow> datetime option) \<Rightarrow> (datetime \<Rightarrow> string)
     \<Rightarrow> string option \<Rightarrow> 'f world \<Rightarrow> (error + run_result) \<times> 'f world" where
  "run_once ad parse fmt preferred_task_id w =
     (case load w of
        Inl e \<Rightarrow> (Inl e, w)
      | Inr d \<Rightarrow>
          (case utc_now w of (now, w1) \<Rightarrow>
             (case refresh_availability parse now d of
                Inl e \<Rightarrow> (Inl e, w1)
              | Inr d1 \<Rightarrow>
                  let picked = pick_task_id d1 preferred_task_id
                  in if \<not> truthy picked then
                       (case write_bounty_board parse fmt d1 w1 of
                          (Inl e, w2) \<Rightarrow> (Inl e, w2)
                        | (Inr d2, w2) \<Rightarrow> (Inr (NotRan ''no_available_task''), save d2 w2))
                     else run_selected ad parse fmt (get_default picked []) d1 w1)))"

subsection \<open>Example inputs\<close>

text \<open>
  A fragment of the two library functions on three timestamps, and a task, for the
  concrete instances below.
\<close>

definition example_parse :: "string \<Rightarrow> datetime option" where
  "example_parse s =
     (if s = ''1970-01-01T00:00:30+00:00'' then Some (Aware 30000000)
      else if s = ''1970-01-01T00:00:00+00:00'' then Some (Aware 0)
      else if s = ''2030-01-01T00:00:00'' then Some (Naive 1893456000000000)
      else None)"

definition example_fmt :: "datetime \<Rightarrow> string" where
  "example_fmt d =
     (if d = Aware 30000000 then ''1970-01-01T00:00:30+00:00''
      else if d = Naive 1893456000000000 then ''2030-01-01T00:00:00''
      else ''1970-01-01T00:00:00+00:00'')"

definition example_task :: "real task" where
  "example_task =
     \<lparr>task_id = Some ''t1'', name = Some ''Memory update'', action = Some ''memory_update'',
      domain = Some ''service'', runtime = Some \<lparr>enabled = Some True\<rparr>,
      bounty = Some \<lparr>reward = Some 5, priority = Some 1, cooldown_sec = Some 30\<rparr>,
      q_learning = None, state = None\<rparr>"

definition example_ranked :: "string \<Rightarrow> real \<Rightarrow> int \<Rightarrow> real task" where
  "example_ranked i r p =
     \<lparr>task_id = Some i, name = None, action = Some ''close_advertisement'', domain = None,
      runtime = None,
      bounty = Some \<lparr>reward = Some r, priority = Some p, cooldown_sec = None\<rparr>,
      q_learning = Some \<lparr>state_key = None, action_key = None, reward_weight = Some 1\<rparr>,
      state = Some (empty_state\<lparr>available := Some True\<rparr>)\<rparr>"

definition example_world :: "real data option \<Rightarrow> real world" where
  "example_world f =
     \<lparr>task_file = f, bounty_board_file = None, files = (\<lambda>p. None),
      clock = (\<lambda>n. int n * 1000000), ticks = 0\<rparr>"




section \<open>Properties\<close>

subsection \<open>Availability\<close>

lemma set_available_get_state [simp]:
  "get_state (set_available b t) = (get_state t)\<lparr>available := Some b\<rparr>"
  by (simp add: set_available_def get_state_def)

lemma get_runtime_set_available [simp]:
  "get_runtime (set_available b t) = get_runtime t"
  by (simp add: set_available_def get_runtime_def)

lemma available_fn_set_available [simp]:
  "available_fn parse (set_available b t) now = available_fn parse t now"
  by (simp add: available_fn_def)

lemma set_available_twice [simp]:
  "set_available b (set_available c t) = set_available b t"
  by (simp add: set_available_def get_state_def)

lemma refresh_tasks_twice:
  "refresh_tasks parse now ts = Inr ts' \<Longrightarrow> refresh_tasks parse now ts' = Inr ts'"
  by (induction ts arbitrary: ts') (auto split: sum.splits)


lemma available_fn_naive:
  assumes "enabled (get_runtime t) \<noteq> Some False" "status (get_state t) \<noteq> Some ''running''"
    "parse_iso_or_none parse (next_available_at (get_state t)) = Some (Naive m)"
  shows "available_fn parse t (Aware n) = Inl TypeError"
  using assms by (cases "enabled (get_runtime t)") (auto simp: available_fn_def get_default_def)

lemma mark_post_run_state [simp]:
  "get_state (mark_post_run fmt now t r) =
     (get_state t)\<lparr>
        status := Some (if ok r then ''success'' else ''failed''),
        last_completed_at := Some (fmt now),
        last_result := Some (details r),
        consecutive_failures :=
          Some (if ok r then 0 else get_default (consecutive_failures (get_state t)) 0 + 1),
        next_available_at :=
          (if get_default (cooldown_sec (get_bounty t)) 0 > 0
           then Some (fmt (add_seconds now (get_default (cooldown_sec (get_bounty t)) 0))) else None),
        available := Some (if get_default (cooldown_sec (get_bounty t)) 0 > 0 then False else True)\<rparr>"
  by (simp add: mark_post_run_def Let_def get_state_def)

lemma mark_post_run_runtime [simp]:
  "get_runtime (mark_post_run fmt now t r) = get_runtime t"
  by (simp add: mark_post_run_def Let_def get_runtime_def)







text \<open>
  Claim C7. Refreshing twice at the same time is refreshing once: a refresh that
  returns is returned unchanged by a second refresh, and a refresh that raises does so
  again. The result of \<open>available_fn\<close> is the same for two tasks that agree on
  \<^verbatim>\<open>runtime.enabled\<close>, \<^verbatim>\<open>state.status\<close> and \<^verbatim>\<open>state.next_available_at\<close>.
\<close>

theorem refresh_idempotent_and_pure:
  "(case refresh_availability parse now d of
      Inl e \<Rightarrow> Inl e
    | Inr d' \<Rightarrow> refresh_availability parse now d') = refresh_availability parse now d
   \<and> (enabled (get_runtime t) = enabled (get_runtime t') \<and>
      status (get_state t) = status (get_state t') \<and>
      next_available_at (get_state t) = next_available_at (get_state t') \<longrightarrow>
      available_fn parse t now = available_fn parse t' now)"
  by (auto simp: refresh_availability_def refresh_tasks_twice available_fn_def
      split: option.splits sum.splits)

theorem refresh_idempotent_and_pure_witness:
  "refresh_availability example_parse (Aware 0) \<lparr>tasks = Some [example_task]\<rparr>
     = Inr \<lparr>tasks = Some [set_available True example_task]\<rparr>
   \<and> refresh_availability example_parse (Aware 0) \<lparr>tasks = Some [set_available True example_task]\<rparr>
     = Inr \<lparr>tasks = Some [set_available True example_task]\<rparr>
   \<and> available_fn example_parse (example_task\<lparr>name := None, bounty := None\<rparr>) (Aware 0)
     = available_fn example_parse example_task (Aware 0)"
proof -
  have r: "refresh_availability example_parse (Aware 0) \<lparr>tasks = Some [example_task]\<rparr>
     = Inr \<lparr>tasks = Some [set_available True example_task]\<rparr>"
    by (simp add: refresh_availability_def available_fn_def example_task_def get_runtime_def
        get_state_def empty_state_def get_default_def parse_iso_or_none_def)
  have h: "enabled (get_runtime (example_task\<lparr>name := None, bounty := None\<rparr>)) = enabled (get_runtime example_task) \<and>
      status (get_state (example_task\<lparr>name := None, bounty := None\<rparr>)) = status (get_state example_task) \<and>
      next_available_at (get_state (example_task\<lparr>name := None, bounty := None\<rparr>)) = next_available_at (get_state example_task)"
    by (simp add: get_runtime_def get_state_def)
  show ?thesis
    using refresh_idempotent_and_pure [of example_parse "Aware 0" "\<lparr>tasks = Some [example_task]\<rparr>"
        "example_task\<lparr>name := None, bounty := None\<rparr>" example_task] r h
    by simp
qed



subsection \<open>Selection\<close>






lemma pick_preferred_iff:
  "pick_preferred ts p =
     (if \<exists>t\<in>set ts. task_id t = Some p \<and> state_available t then Some p else None)"
  by (induction ts) auto

text \<open>The order of the keys: the product first, the priority on equal products.\<close>

lemma sort_key_fn_less:
  "sort_key_fn u < sort_key_fn t \<longleftrightarrow>
     fst (sort_key_fn u) < fst (sort_key_fn t) \<or>
     fst (sort_key_fn u) = fst (sort_key_fn t) \<and> snd (sort_key_fn u) < snd (sort_key_fn t)"
  by (rule less_prod_def')




text \<open>
  Claim C3. With a non-empty preferred id, the selection returns that id if some task
  bears it and is available, and none otherwise, whatever the other tasks are.
\<close>

theorem pick_preferred_only:
  "p \<noteq> [] \<Longrightarrow>
   pick_task_id d (Some p) =
     (if \<exists>t\<in>set (get_tasks d). task_id t = Some p \<and> state_available t then Some p else None)"
  by (simp add: pick_task_id_def truthy_def get_default_def pick_preferred_iff)

theorem pick_preferred_only_witness:
  "''A'' \<noteq> []
   \<and> pick_task_id \<lparr>tasks = Some [set_available False (example_ranked ''A'' 10 1), example_ranked ''B'' 5 5]\<rparr> (Some ''A'') = None
   \<and> pick_task_id \<lparr>tasks = Some [example_ranked ''A'' 10 1, example_ranked ''B'' 5 5]\<rparr> (Some ''B'') = Some ''B''
   \<and> pick_task_id \<lparr>tasks = Some [example_ranked ''A'' 10 1, example_ranked ''B'' 5 5]\<rparr> (Some ''Z'') = None"
proof -
  have h: "''A'' \<noteq> []" "''B'' \<noteq> []" "''Z'' \<noteq> []" by simp_all
  show ?thesis
    using pick_preferred_only [OF h(1), of "\<lparr>tasks = Some [set_available False (example_ranked ''A'' 10 1), example_ranked ''B'' 5 5]\<rparr>"]
      pick_preferred_only [OF h(2), of "\<lparr>tasks = Some [example_ranked ''A'' 10 1, example_ranked ''B'' 5 5]\<rparr>"]
      pick_preferred_only [OF h(3), of "\<lparr>tasks = Some [example_ranked ''A'' 10 1, example_ranked ''B'' 5 5]\<rparr>"]
    by (simp add: get_tasks_def state_available_def example_ranked_def get_state_def
        empty_state_def get_default_def set_available_def)
qed

subsection \<open>Settling\<close>



subsection \<open>The cycle\<close>






lemma get_tasks_refreshed [simp]:
  "get_tasks (d\<lparr>tasks := map_option (map f) v\<rparr>) = map f (get_tasks (d\<lparr>tasks := v\<rparr>))"
  by (simp add: get_tasks_def split: option.splits)

lemma get_tasks_same [simp]:
  "get_tasks (d\<lparr>tasks := tasks d\<rparr>) = get_tasks d"
  by (simp add: get_tasks_def)


lemma state_available_set_available [simp]:
  "state_available (set_available b t) = b"
  by (simp add: state_available_def get_default_def)






text \<open>
  Claim C9. When the task file does not exist, \<open>run_once\<close> ends with
  \<open>FileNotFoundError\<close> and the world is as it was: no file is written.
\<close>

theorem run_once_missing_task_file:
  "task_file w = None \<Longrightarrow> run_once ad parse fmt preferred w = (Inl FileNotFoundError, w)"
  by (simp add: run_once_def load_def)

theorem run_once_missing_task_file_witness:
  "task_file (example_world None) = None
   \<and> run_once (default_adapters example_fmt) example_parse example_fmt None (example_world None)
       = (Inl FileNotFoundError, example_world None)
   \<and> task_file (snd (run_once (default_adapters example_fmt) example_parse example_fmt None (example_world None))) = None
   \<and> bounty_board_file (snd (run_once (default_adapters example_fmt) example_parse example_fmt None (example_world None))) = None"
proof -
  have h: "task_file (example_world None) = None" by (simp add: example_world_def)
  show ?thesis
    using run_once_missing_task_file [OF h, of "default_adapters example_fmt" example_parse example_fmt None] h
    by (simp add: example_world_def)
qed


subsection \<open>A cycle that runs a task\<close>

lemma set_sort_reverse [simp]: "set (sort_reverse f xs) = set xs"
  by (simp add: sort_reverse_def)





lemma task_id_set_available [simp]: "task_id (set_available b t) = task_id t"
  by (simp add: set_available_def)

lemma mark_running_set_available [simp]:
  "mark_running s (set_available b t) = mark_running s t"
  by (simp add: mark_running_def set_available_def get_state_def)

lemma get_state_mark_running [simp]:
  "get_state (mark_running s t) =
     (get_state t)\<lparr>status := Some ''running'', last_started_at := Some s, available := Some False\<rparr>"
  by (simp add: mark_running_def get_state_def)

lemma mark_running_fields [simp]:
  "action (mark_running s t) = action t"
  "get_runtime (mark_running s t) = get_runtime t"
  "get_bounty (mark_running s t) = get_bounty t"
  by (simp_all add: mark_running_def get_runtime_def get_bounty_def)


















end
